theory Spec2Isabelle
  imports Complex_Main
begin

section \<open>Data model\<close>

text \<open>
  The pipeline of \<^verbatim>\<open>src/app.py\<close> is a sequence of five functions called by \<^verbatim>\<open>main\<close>.
  Python values that cross the stages are modelled as follows: a \<^verbatim>\<open>str\<close> is a
  \<^typ>\<open>string\<close> (code points below 256), a value produced by \<^verbatim>\<open>json.loads\<close> or
  \<^verbatim>\<open>response.json()\<close> is a \<open>json\<close> value, a langchain \<^verbatim>\<open>Document\<close> is a record.
  A Python exception that leaves a stage is a value of \<open>error\<close>, named after the call
  that raised it: \<open>NetworkError\<close> when \<^verbatim>\<open>requests.request\<close> raises, \<open>ParseError\<close> when
  \<^verbatim>\<open>response.json()\<close> or \<^verbatim>\<open>json.loads\<close> raises, \<open>FetchError\<close> when the loader raises and
  \<open>ModelInvocationError\<close> when building or calling the model chain raises. The source
  has no check of its configuration, so no stage produces \<open>ConfigurationError\<close>.
\<close>

datatype error =
    ConfigurationError
  | NetworkError
  | ParseError
  | FetchError
  | ModelInvocationError

datatype json =
    JNull
  | JBool bool
  | JInt int
  | JFloat string
  | JString string
  | JArray "json list"
  | JObject "(string \<times> json) list"

record document =
  page_content :: string
  metadata :: "(string \<times> string) list"

record http_response =
  status_code :: nat
  body :: string

record llm_config =
  model_name :: string
  temperature :: rat

record splitter_config =
  separator :: string
  chunk_size :: nat
  chunk_overlap :: nat

text \<open>
  Every outbound call of a run is recorded, in order, in a trace. A call is recorded when
  it is issued, whether it then succeeds or raises.
\<close>

datatype call =
    HttpRequest string string "(string \<times> string option) list" string
  | LlmPredict llm_config string
  | LoaderLoad json

type_synonym trace = "call list"

text \<open>
  The libraries and services the program calls are not part of the repository. They are
  fields of a record \<open>world\<close> over which every theorem is universally quantified:
  \<^item> \<open>getenv\<close>: the process environment after \<^verbatim>\<open>load_dotenv\<close>;
  \<^item> \<open>requests_request\<close>: \<^verbatim>\<open>requests.request(method, url, headers, data)\<close>, \<open>None\<close> when it raises;
  \<^item> \<open>json_loads\<close>, \<open>json_dumps\<close>: the \<^verbatim>\<open>json\<close> module, \<open>None\<close> for \<^verbatim>\<open>JSONDecodeError\<close>;
  \<^item> \<open>chain_predict\<close>: calling \<^verbatim>\<open>predict\<close> on the rendered prompt, \<open>None\<close> when it raises; in
    the two stages that make exactly one model call, building \<^verbatim>\<open>ChatOpenAI\<close> and
    \<^verbatim>\<open>LLMChain\<close> just before the call is part of this step;
  \<^item> \<open>chain_build\<close>: building \<^verbatim>\<open>ChatOpenAI\<close>, \<^verbatim>\<open>PromptTemplate\<close> and \<^verbatim>\<open>LLMChain\<close> in the
    Summarizer, which happens once, before its loop and whether or not there is any chunk;
    \<open>False\<close> when it raises;
  \<^item> \<open>loader_load\<close>: \<^verbatim>\<open>UnstructuredURLLoader(urls=urls).load()\<close>, \<open>None\<close> when it raises;
  \<^item> \<open>split_documents\<close>: \<^verbatim>\<open>CharacterTextSplitter(...).split_documents(data)\<close>;
  \<^item> \<open>repr_document\<close>: \<^verbatim>\<open>repr\<close> of a \<^verbatim>\<open>Document\<close>.
  The answers of the services may depend on the calls made so far, so a model that
  answers the same prompt differently each time is covered.
\<close>

record world =
  getenv :: "string \<Rightarrow> string option"
  requests_request ::
    "trace \<Rightarrow> string \<Rightarrow> string \<Rightarrow> (string \<times> string option) list \<Rightarrow> string \<Rightarrow> http_response option"
  json_loads :: "string \<Rightarrow> json option"
  json_dumps :: "json \<Rightarrow> string"
  chain_predict :: "trace \<Rightarrow> llm_config \<Rightarrow> string \<Rightarrow> string option"
  chain_build :: "trace \<Rightarrow> llm_config \<Rightarrow> bool"
  loader_load :: "trace \<Rightarrow> json \<Rightarrow> document list option"
  split_documents :: "splitter_config \<Rightarrow> document list \<Rightarrow> document list"
  repr_document :: "document \<Rightarrow> string"

section \<open>Python built-ins used by the source\<close>

text \<open>\<^verbatim>\<open>repr\<close> of a non-negative \<^verbatim>\<open>int\<close> (the index produced by \<^verbatim>\<open>enumerate\<close>): decimal digits.\<close>

definition digit_char :: "nat \<Rightarrow> char" where
  "digit_char d = char_of (of_char (CHR ''0'') + d)"

function py_repr_nat :: "nat \<Rightarrow> string" where
  "py_repr_nat n = (if n < 10 then [digit_char n] else py_repr_nat (n div 10) @ [digit_char (n mod 10)])"
  by pat_completeness auto
termination
  by (relation "measure id") auto

declare py_repr_nat.simps [simp del]

text \<open>
  \<^verbatim>\<open>repr\<close> of a \<^verbatim>\<open>str\<close>: single quotes, unless the text holds a single quote and no
  double quote; the quote and the backslash are escaped, tab, newline and carriage
  return are written \<^verbatim>\<open>\t\<close>, \<^verbatim>\<open>\n\<close>, \<^verbatim>\<open>\r\<close>, and every other non-printable code point
  below 256 is written \<^verbatim>\<open>\xhh\<close>.
\<close>

definition hex_char :: "nat \<Rightarrow> char" where
  "hex_char d = (if d < 10 then digit_char d else char_of (of_char (CHR ''a'') + (d - 10)))"

definition py_printable :: "char \<Rightarrow> bool" where
  "py_printable c =
     (let n = (of_char c :: nat)
      in (32 \<le> n \<and> n < 127) \<or> (161 \<le> n \<and> n \<noteq> 173))"

definition py_repr_quote :: "string \<Rightarrow> char" where
  "py_repr_quote s =
     (if CHR 0x27 \<in> set s \<and> CHR 0x22 \<notin> set s then CHR 0x22 else CHR 0x27)"

definition py_repr_char :: "char \<Rightarrow> char \<Rightarrow> string" where
  "py_repr_char q c =
     (if c = q \<or> c = CHR 0x5C then [CHR 0x5C, c]
      else if c = CHR 0x09 then [CHR 0x5C, CHR ''t'']
      else if c = CHR 0x0A then [CHR 0x5C, CHR ''n'']
      else if c = CHR 0x0D then [CHR 0x5C, CHR ''r'']
      else if py_printable c then [c]
      else [CHR 0x5C, CHR ''x'', hex_char (of_char c div 16), hex_char (of_char c mod 16)])"

definition py_repr_str :: "string \<Rightarrow> string" where
  "py_repr_str s = (let q = py_repr_quote s in [q] @ concat (map (py_repr_char q) s) @ [q])"

text \<open>\<^verbatim>\<open>', '.join(parts)\<close>.\<close>

fun join_comma :: "string list \<Rightarrow> string" where
  "join_comma [] = []"
| "join_comma [x] = x"
| "join_comma (x # y # ys) = x @ '', '' @ join_comma (y # ys)"

text \<open>\<^verbatim>\<open>str\<close> of a list of \<^verbatim>\<open>str\<close>: the \<^verbatim>\<open>repr\<close> of each element, in brackets.\<close>

definition py_str_list :: "string list \<Rightarrow> string" where
  "py_str_list xs = ''['' @ join_comma (map py_repr_str xs) @ '']''"

text \<open>
  \<^verbatim>\<open>str\<close> of the pair \<^verbatim>\<open>(index, document)\<close> that \<^verbatim>\<open>enumerate\<close> yields: the \<^verbatim>\<open>repr\<close> of
  each component, in parentheses.
\<close>

definition py_str_enumerated :: "world \<Rightarrow> nat \<times> document \<Rightarrow> string" where
  "py_str_enumerated w p =
     ''('' @ py_repr_nat (fst p) @ '', '' @ repr_document w (snd p) @ '')''"

text \<open>
  \<^verbatim>\<open>template.format(**kwargs)\<close>, as \<^verbatim>\<open>PromptTemplate.format\<close> calls it, for templates whose
  replacement fields are plain names: \<^verbatim>\<open>{name}\<close> is replaced by the value bound to
  \<^verbatim>\<open>name\<close>, \<^verbatim>\<open>{{\<close> and \<^verbatim>\<open>}}\<close> stand for a brace, and a missing name or an unmatched brace
  raises (\<open>None\<close>). The second argument is the field name being read, if any.
\<close>

fun format_fields :: "(string \<times> string) list \<Rightarrow> string option \<Rightarrow> string \<Rightarrow> string option" where
  "format_fields kw None [] = Some []"
| "format_fields kw (Some name) [] = None"
| "format_fields kw (Some name) (c # cs) =
     (if c = CHR ''}'' then
        (case map_of kw name of
           None \<Rightarrow> None
         | Some v \<Rightarrow> map_option ((@) v) (format_fields kw None cs))
      else format_fields kw (Some (name @ [c])) cs)"
| "format_fields kw None (c # cs) =
     (if c = CHR ''{'' then
        (case cs of
           [] \<Rightarrow> None
         | d # ds \<Rightarrow>
             if d = CHR ''{'' then map_option ((#) c) (format_fields kw None ds)
             else format_fields kw (Some []) cs)
      else if c = CHR ''}'' then
        (case cs of
           [] \<Rightarrow> None
         | d # ds \<Rightarrow>
             if d = CHR ''}'' then map_option ((#) c) (format_fields kw None ds)
             else None)
      else map_option ((#) c) (format_fields kw None cs))"

definition format_template :: "string \<Rightarrow> (string \<times> string) list \<Rightarrow> string option" where
  "format_template template kw = format_fields kw None template"

section \<open>The prompt templates\<close>

text \<open>The three \<^verbatim>\<open>prompt_template\<close> literals of the source, line by line.\<close>

definition article_prompt_template :: string where
  "article_prompt_template = concat
    [''\<newline>'',
     ''    You're a world class researcher, and are very good at finding the most relevant articles for certain topics;\<newline>'',
     ''    {response_str}\<newline>'',
     ''    Above is a list of search results for the query {query}.\<newline>'',
     ''    Please choose the best article from the list, return ONLY an array of the url, do not include anything else;\<newline>'',
     ''    '']"

definition summary_prompt_template :: string where
  "summary_prompt_template = concat
    [''\<newline>'',
     ''    {text}\<newline>'',
     ''    You're a world class researcher, and you'll try to summarise the text above in order to create a reddit post {query}\<newline>'',
     ''    Please follow all of the following rules when summarising:\<newline>'',
     ''    1/ Make sure the content is engaging information with good data\<newline>'',
     ''    2/ Make sure the content is not too long, it should be no more than 40,000 characters\<newline>'',
     ''    3/ The content should address the {query} topic very well\<newline>'',
     ''    4/ The content needs to be viral, and get at least 1000 likes\<newline>'',
     ''    5/ The content needs to written in a way that is easy to read and understand\<newline>'',
     ''    6/ The content needs to give the reader some actionable advice and insights\<newline>'',
     ''    \<newline>'',
     ''    SUMMARY:\<newline>'',
     ''    '']"

definition post_prompt_template :: string where
  "post_prompt_template = concat
    [''\<newline>'',
     ''    {summaries_str}\<newline>'',
     ''    You are a world class researcher and reddit user with a large amount of karma, The text above is some content about\<newline>'',
     ''    {query}. Please write a reddit post about {query} using the text above, and following all the rules below:\<newline>'',
     ''    1/ The post needs to be engaging, informative with good data\<newline>'',
     ''    2/ Make sure the post is not too long, it should be no more than 40,000 characters\<newline>'',
     ''    3/ The post should address the {query} topic very well\<newline>'',
     ''    4/ The post needs to be viral, and get at least 1000 likes\<newline>'',
     ''    5/ The post needs to written in a way that is easy to read and understand\<newline>'',
     ''    6/ The post needs to give the reader some actionable advice and insights\<newline>'',
     ''    \<newline>'',
     ''    REDDIT POST:\<newline>'',
     ''    '']"

section \<open>The stages\<close>

text \<open>
  A stage takes the trace so far and returns its result, or the error that left it,
  with the extended trace. Printing to standard output, the progress bar (whose messages
  come from \<^verbatim>\<open>utils/helper.py\<close>, which is not under \<^verbatim>\<open>src/\<close>) and the streamlit widgets are
  presentation: they are left out and taken not to raise.
\<close>

definition SERPAPI_API_KEY :: "world \<Rightarrow> string option" where
  "SERPAPI_API_KEY w = getenv w ''SERPAPI_API_KEY''"

definition OPENAI_API_KEY :: "world \<Rightarrow> string option" where
  "OPENAI_API_KEY w = getenv w ''OPENAI_API_KEY''"

definition search_url :: string where
  "search_url = ''https://google.serper.dev/search''"

definition search_for_articles :: "world \<Rightarrow> string \<Rightarrow> trace \<Rightarrow> (error + json) \<times> trace" where
  "search_for_articles w query tr =
     (let url = search_url;
          payload = json_dumps w (JObject [(''q'', JString query)]);
          headers = [(''X-API-KEY'', SERPAPI_API_KEY w),
                     (''Content-Type'', Some ''application/json'')];
          tr' = tr @ [HttpRequest ''POST'' url headers payload]
      in case requests_request w tr ''POST'' url headers payload of
           None \<Rightarrow> (Inl NetworkError, tr')
         | Some response \<Rightarrow>
             (case json_loads w (body response) of
                None \<Rightarrow> (Inl ParseError, tr')
              | Some response_data \<Rightarrow> (Inr response_data, tr')))"

definition article_llm :: llm_config where
  "article_llm = \<lparr>model_name = ''gpt-3.5-turbo'', temperature = 1\<rparr>"

definition writer_llm :: llm_config where
  "writer_llm = \<lparr>model_name = ''gpt-3.5-turbo'', temperature = 7 / 10\<rparr>"

definition find_the_best_article_urls ::
  "world \<Rightarrow> json \<Rightarrow> string \<Rightarrow> trace \<Rightarrow> (error + json) \<times> trace" where
  "find_the_best_article_urls w response_data query tr =
     (let response_str = json_dumps w response_data
      in case format_template article_prompt_template
                [(''response_str'', response_str), (''query'', query)] of
           None \<Rightarrow> (Inl ModelInvocationError, tr)
         | Some prompt \<Rightarrow>
             (let tr' = tr @ [LlmPredict article_llm prompt]
              in case chain_predict w tr article_llm prompt of
                   None \<Rightarrow> (Inl ModelInvocationError, tr')
                 | Some generated_urls \<Rightarrow>
                     (case json_loads w generated_urls of
                        None \<Rightarrow> (Inl ParseError, tr')
                      | Some url_list \<Rightarrow> (Inr url_list, tr'))))"

definition get_content_from_urls ::
  "world \<Rightarrow> json \<Rightarrow> trace \<Rightarrow> (error + document list) \<times> trace" where
  "get_content_from_urls w urls tr =
     (let tr' = tr @ [LoaderLoad urls]
      in case loader_load w tr urls of
           None \<Rightarrow> (Inl FetchError, tr')
         | Some data \<Rightarrow> (Inr data, tr'))"

definition text_splitter :: splitter_config where
  "text_splitter = \<lparr>separator = ''\<newline>'', chunk_size = 3000, chunk_overlap = 200\<rparr>"

text \<open>
  The loop \<^verbatim>\<open>for chunk in enumerate(text)\<close>: the loop variable is the pair of index and
  document, and it is this pair that is bound to \<^verbatim>\<open>text\<close> in the prompt.
\<close>

fun summarise_loop ::
  "world \<Rightarrow> string \<Rightarrow> (nat \<times> document) list \<Rightarrow> string list \<Rightarrow> trace
     \<Rightarrow> (error + string list) \<times> trace" where
  "summarise_loop w query [] summaries tr = (Inr summaries, tr)"
| "summarise_loop w query (chunk # rest) summaries tr =
     (case format_template summary_prompt_template
             [(''text'', py_str_enumerated w chunk), (''query'', query)] of
        None \<Rightarrow> (Inl ModelInvocationError, tr)
      | Some prompt \<Rightarrow>
          (let tr' = tr @ [LlmPredict writer_llm prompt]
           in case chain_predict w tr writer_llm prompt of
                None \<Rightarrow> (Inl ModelInvocationError, tr')
              | Some summary \<Rightarrow> summarise_loop w query rest (summaries @ [summary]) tr'))"

definition summarise_content ::
  "world \<Rightarrow> document list \<Rightarrow> string \<Rightarrow> trace \<Rightarrow> (error + string list) \<times> trace" where
  "summarise_content w data query tr =
     (let text = split_documents w text_splitter data
      in if chain_build w tr writer_llm
         then summarise_loop w query (enumerate 0 text) [] tr
         else (Inl ModelInvocationError, tr))"

definition generate_reddit_post ::
  "world \<Rightarrow> string list \<Rightarrow> string \<Rightarrow> trace \<Rightarrow> (error + string) \<times> trace" where
  "generate_reddit_post w summaries query tr =
     (let summaries_str = py_str_list summaries
      in case format_template post_prompt_template
                [(''summaries_str'', summaries_str), (''query'', query)] of
           None \<Rightarrow> (Inl ModelInvocationError, tr)
         | Some prompt \<Rightarrow>
             (let tr' = tr @ [LlmPredict writer_llm prompt]
              in case chain_predict w tr writer_llm prompt of
                   None \<Rightarrow> (Inl ModelInvocationError, tr')
                 | Some reddit_post \<Rightarrow> (Inr reddit_post, tr')))"

text \<open>
  \<^verbatim>\<open>main\<close>: nothing runs for an empty query; otherwise the five stages run in order and
  the five values are shown. An exception leaving a stage leaves \<^verbatim>\<open>main\<close>.
\<close>

record run_output =
  shown_search_results :: json
  shown_urls :: json
  shown_data :: "document list"
  shown_summaries :: "string list"
  shown_post :: string

definition main :: "world \<Rightarrow> string \<Rightarrow> trace \<Rightarrow> (error + run_output option) \<times> trace" where
  "main w query tr =
     (if query = [] then (Inr None, tr)
      else
        case search_for_articles w query tr of
          (Inl e, t1) \<Rightarrow> (Inl e, t1)
        | (Inr sr, t1) \<Rightarrow>
        (case find_the_best_article_urls w sr query t1 of
          (Inl e, t2) \<Rightarrow> (Inl e, t2)
        | (Inr us, t2) \<Rightarrow>
        (case get_content_from_urls w us t2 of
          (Inl e, t3) \<Rightarrow> (Inl e, t3)
        | (Inr ds, t3) \<Rightarrow>
        (case summarise_content w ds query t3 of
          (Inl e, t4) \<Rightarrow> (Inl e, t4)
        | (Inr ss, t4) \<Rightarrow>
        (case generate_reddit_post w ss query t4 of
          (Inl e, t5) \<Rightarrow> (Inl e, t5)
        | (Inr p, t5) \<Rightarrow>
            (Inr (Some \<lparr>shown_search_results = sr, shown_urls = us, shown_data = ds,
                         shown_summaries = ss, shown_post = p\<rparr>), t5))))))"

section \<open>The templates with their slots filled\<close>

text \<open>
  The literal text of each template between its replacement fields, and the prompt that
  results when the fields are replaced by given texts. That \<open>format_template\<close> produces
  these prompts is proved below.
\<close>

definition article_seg0 :: string where
  "article_seg0 = concat
    [''\<newline>'',
     ''    You're a world class researcher, and are very good at finding the most relevant articles for certain topics;\<newline>'',
     ''    '']"

definition article_seg1 :: string where
  "article_seg1 = concat
    [''\<newline>'',
     ''    Above is a list of search results for the query '']"

definition article_seg2 :: string where
  "article_seg2 = concat
    [''.\<newline>'',
     ''    Please choose the best article from the list, return ONLY an array of the url, do not include anything else;\<newline>'',
     ''    '']"

definition summary_seg0 :: string where
  "summary_seg0 = concat
    [''\<newline>'',
     ''    '']"

definition summary_seg1 :: string where
  "summary_seg1 = concat
    [''\<newline>'',
     ''    You're a world class researcher, and you'll try to summarise the text above in order to create a reddit post '']"

definition summary_seg2 :: string where
  "summary_seg2 = concat
    [''\<newline>'',
     ''    Please follow all of the following rules when summarising:\<newline>'',
     ''    1/ Make sure the content is engaging information with good data\<newline>'',
     ''    2/ Make sure the content is not too long, it should be no more than 40,000 characters\<newline>'',
     ''    3/ The content should address the '']"

definition summary_seg3 :: string where
  "summary_seg3 = concat
    ['' topic very well\<newline>'',
     ''    4/ The content needs to be viral, and get at least 1000 likes\<newline>'',
     ''    5/ The content needs to written in a way that is easy to read and understand\<newline>'',
     ''    6/ The content needs to give the reader some actionable advice and insights\<newline>'',
     ''    \<newline>'',
     ''    SUMMARY:\<newline>'',
     ''    '']"

definition post_seg0 :: string where
  "post_seg0 = concat
    [''\<newline>'',
     ''    '']"

definition post_seg1 :: string where
  "post_seg1 = concat
    [''\<newline>'',
     ''    You are a world class researcher and reddit user with a large amount of karma, The text above is some content about\<newline>'',
     ''    '']"

definition post_seg2 :: string where
  "post_seg2 = concat
    [''. Please write a reddit post about '']"

definition post_seg3 :: string where
  "post_seg3 = concat
    ['' using the text above, and following all the rules below:\<newline>'',
     ''    1/ The post needs to be engaging, informative with good data\<newline>'',
     ''    2/ Make sure the post is not too long, it should be no more than 40,000 characters\<newline>'',
     ''    3/ The post should address the '']"

definition post_seg4 :: string where
  "post_seg4 = concat
    ['' topic very well\<newline>'',
     ''    4/ The post needs to be viral, and get at least 1000 likes\<newline>'',
     ''    5/ The post needs to written in a way that is easy to read and understand\<newline>'',
     ''    6/ The post needs to give the reader some actionable advice and insights\<newline>'',
     ''    \<newline>'',
     ''    REDDIT POST:\<newline>'',
     ''    '']"

definition article_prompt :: "string \<Rightarrow> string \<Rightarrow> string" where
  "article_prompt response_str query =
     article_seg0 @ response_str @ article_seg1 @ query @ article_seg2"

definition summary_prompt :: "string \<Rightarrow> string \<Rightarrow> string" where
  "summary_prompt text query =
     summary_seg0 @ text @ summary_seg1 @ query @ summary_seg2 @ query @ summary_seg3"

definition post_prompt :: "string \<Rightarrow> string \<Rightarrow> string" where
  "post_prompt summaries_str query =
     post_seg0 @ summaries_str @ post_seg1 @ query @ post_seg2 @ query @ post_seg3
       @ query @ post_seg4"

text \<open>The request that \<^verbatim>\<open>search_for_articles\<close> sends for a query.\<close>

definition search_call :: "world \<Rightarrow> string \<Rightarrow> call" where
  "search_call w query =
     HttpRequest ''POST'' ''https://google.serper.dev/search''
       [(''X-API-KEY'', getenv w ''SERPAPI_API_KEY''),
        (''Content-Type'', Some ''application/json'')]
       (json_dumps w (JObject [(''q'', JString query)]))"

text \<open>The calls the summarising loop issues for a list of enumerated chunks.\<close>

definition summary_calls :: "world \<Rightarrow> string \<Rightarrow> (nat \<times> document) list \<Rightarrow> call list" where
  "summary_calls w query chunks =
     map (\<lambda>chunk. LlmPredict writer_llm (summary_prompt (py_str_enumerated w chunk) query)) chunks"

section \<open>The splitter as the specification describes it\<close>

text \<open>
  Modelled from the spec: \<^verbatim>\<open>CharacterTextSplitter\<close> is langchain code and is not under
  \<^verbatim>\<open>src/\<close>; the source only builds it with separator \<^verbatim>\<open>"\n"\<close>, chunk size 3000 and
  overlap 200. The specification describes it as splitting the text into chunks of at
  most the chunk size, consecutive chunks sharing the overlap, with the separator as the
  preferred boundary. For a text without any separator there is no preferred boundary:
  each chunk is the next window of \<open>chunk_size\<close> characters, and the following window
  starts \<open>chunk_overlap\<close> characters before the end of the previous one. The
  specification does not fix the chunks of a text that holds separators (\<open>None\<close>).
\<close>

function split_windows :: "nat \<Rightarrow> nat \<Rightarrow> string \<Rightarrow> string list" where
  "split_windows n overlap text =
     (if length text \<le> n \<or> n \<le> overlap then [text]
      else take n text # split_windows n overlap (drop (n - overlap) text))"
  by pat_completeness auto
termination
  by (relation "measure (\<lambda>(n, overlap, text). length text)") auto

declare split_windows.simps [simp del]

text \<open>
  Modelled from the spec: "no separator matches" is read as the separator not occurring
  in the text as a contiguous piece.
\<close>

fun occurs_in :: "string \<Rightarrow> string \<Rightarrow> bool" where
  "occurs_in sep [] = (sep = [])"
| "occurs_in sep (c # cs) = (take (length sep) (c # cs) = sep \<or> occurs_in sep cs)"

text \<open>
  Modelled from the spec: the chunks of a text under a splitter configuration, where the
  specification fixes them.
\<close>

definition spec_split_text :: "splitter_config \<Rightarrow> string \<Rightarrow> string list option" where
  "spec_split_text cfg text =
     (if occurs_in (separator cfg) text then None
      else Some (split_windows (chunk_size cfg) (chunk_overlap cfg) text))"

section \<open>A test world\<close>

text \<open>
  Concrete services for running the pipeline on examples: the search provider answers
  every request with the body \<^verbatim>\<open>{}\<close>, the model answers the selection prompt with \<^verbatim>\<open>[]\<close> and
  every other prompt with a text that names the position of the call, the loader
  returns two documents and the splitter leaves them whole. The two JSON functions are
  tables that agree with \<^verbatim>\<open>json.loads\<close> and \<^verbatim>\<open>json.dumps\<close> on the few texts and values
  that occur in these runs. \<open>mock_repr_document\<close> is the rendering
  \<^verbatim>\<open>Document(page_content='...', metadata={...})\<close>.
\<close>

definition mock_json_loads :: "string \<Rightarrow> json option" where
  "mock_json_loads s =
     (if s = ''{}'' then Some (JObject [])
      else if s = ''[]'' then Some (JArray [])
      else None)"

fun mock_json_dumps :: "json \<Rightarrow> string" where
  "mock_json_dumps (JObject [(k, JString v)]) =
     ''{'' @ [CHR 0x22] @ k @ [CHR 0x22] @ '': '' @ [CHR 0x22] @ v @ [CHR 0x22] @ ''}''"
| "mock_json_dumps (JObject []) = ''{}''"
| "mock_json_dumps (JArray []) = ''[]''"
| "mock_json_dumps j = ''null''"

definition mock_repr_document :: "document \<Rightarrow> string" where
  "mock_repr_document d =
     ''Document(page_content='' @ py_repr_str (page_content d) @ '', metadata={''
       @ join_comma (map (\<lambda>(k, v). py_repr_str k @ '': '' @ py_repr_str v) (metadata d))
       @ ''})''"

definition mock_documents :: "document list" where
  "mock_documents =
     [\<lparr>page_content = ''abc'', metadata = []\<rparr>, \<lparr>page_content = ''def'', metadata = []\<rparr>]"

definition mock_world :: world where
  "mock_world =
     \<lparr>getenv = (\<lambda>k. if k = ''SERPAPI_API_KEY'' then Some ''serper-key''
                     else if k = ''OPENAI_API_KEY'' then Some ''openai-key'' else None),
      requests_request = (\<lambda>tr method url headers payload. Some \<lparr>status_code = 200, body = ''{}''\<rparr>),
      json_loads = mock_json_loads,
      json_dumps = mock_json_dumps,
      chain_predict = (\<lambda>tr llm prompt.
         if llm = article_llm then Some ''[]'' else Some (''text '' @ py_repr_nat (length tr))),
      chain_build = (\<lambda>tr llm. True),
      loader_load = (\<lambda>tr urls. Some mock_documents),
      split_documents = (\<lambda>cfg ds. ds),
      repr_document = mock_repr_document\<rparr>"

text \<open>
  Variants of the test world: a model that answers every writing prompt with the empty
  text; an environment without the two keys, where the search provider answers 403 and
  the model call raises; a model that answers the selection prompt with prose; a
  search provider that answers 401 with a JSON body; and a search provider whose
  response body is the JSON array \<^verbatim>\<open>[]\<close>.
\<close>

definition silent_model_world :: world where
  "silent_model_world =
     mock_world\<lparr>chain_predict :=
       (\<lambda>tr llm prompt. if llm = article_llm then Some ''[]'' else Some [])\<rparr>"

definition no_keys_world :: world where
  "no_keys_world =
     mock_world\<lparr>getenv := (\<lambda>k. None),
       requests_request :=
         (\<lambda>tr method url headers payload. Some \<lparr>status_code = 403, body = ''{}''\<rparr>),
       chain_predict := (\<lambda>tr llm prompt. None),
       chain_build := (\<lambda>tr llm. False)\<rparr>"

definition prose_model_world :: world where
  "prose_model_world =
     mock_world\<lparr>chain_predict := (\<lambda>tr llm prompt. Some ''Here is the best article'')\<rparr>"

definition unauthorized_world :: world where
  "unauthorized_world =
     mock_world\<lparr>requests_request :=
       (\<lambda>tr method url headers payload. Some \<lparr>status_code = 401, body = ''{}''\<rparr>)\<rparr>"

definition list_body_world :: world where
  "list_body_world =
     mock_world\<lparr>requests_request :=
       (\<lambda>tr method url headers payload. Some \<lparr>status_code = 200, body = ''[]''\<rparr>)\<rparr>"

section \<open>Rendering the templates\<close>

lemma format_fields_plain:
  "CHR ''{'' \<notin> set pre \<Longrightarrow> CHR ''}'' \<notin> set pre \<Longrightarrow>
   format_fields kw None (pre @ s) = map_option ((@) pre) (format_fields kw None s)"
proof (induction pre)
  case Nil
  show ?case by (cases "format_fields kw None s") simp_all
next
  case (Cons a pre)
  then have a: "a \<noteq> CHR ''{''" "a \<noteq> CHR ''}''"
    and IH: "format_fields kw None (pre @ s) = map_option ((@) pre) (format_fields kw None s)"
    by auto
  show ?case using a IH by (cases "format_fields kw None s") simp_all
qed

lemma format_fields_name:
  "CHR ''}'' \<notin> set nm \<Longrightarrow>
   format_fields kw (Some acc) (nm @ CHR ''}'' # rest) =
     (case map_of kw (acc @ nm) of
        None \<Rightarrow> None
      | Some v \<Rightarrow> map_option ((@) v) (format_fields kw None rest))"
  by (induction nm arbitrary: acc) auto

lemma format_fields_field:
  assumes "nm \<noteq> []" "hd nm \<noteq> CHR ''{''" "CHR ''}'' \<notin> set nm"
  shows "format_fields kw None (CHR ''{'' # nm @ CHR ''}'' # rest) =
     (case map_of kw nm of
        None \<Rightarrow> None
      | Some v \<Rightarrow> map_option ((@) v) (format_fields kw None rest))"
proof -
  obtain c cs where nm: "nm = c # cs" using assms(1) by (cases nm) auto
  have "format_fields kw None (CHR ''{'' # nm @ CHR ''}'' # rest) =
        format_fields kw (Some []) (nm @ CHR ''}'' # rest)"
    using assms(2) by (simp add: nm)
  then show ?thesis using format_fields_name [OF assms(3), of kw "[]" rest] by simp
qed

lemma format_fields_end:
  "CHR ''{'' \<notin> set pre \<Longrightarrow> CHR ''}'' \<notin> set pre \<Longrightarrow> format_fields kw None pre = Some pre"
  using format_fields_plain [of pre kw "[]"] by simp

lemma format_fields_seg:
  assumes "CHR ''{'' \<notin> set pre" "CHR ''}'' \<notin> set pre"
    and "nm \<noteq> []" "hd nm \<noteq> CHR ''{''" "CHR ''}'' \<notin> set nm"
    and "map_of kw nm = Some v"
    and "format_fields kw None rest = Some r"
  shows "format_fields kw None (pre @ CHR ''{'' # nm @ CHR ''}'' # rest) = Some (pre @ v @ r)"
proof -
  have "format_fields kw None (CHR ''{'' # nm @ CHR ''}'' # rest) = Some (v @ r)"
    unfolding format_fields_field [OF assms(3,4,5)] using assms(6,7) by simp
  then show ?thesis
    unfolding format_fields_plain [OF assms(1,2)] by simp
qed

lemma article_template_split:
  "article_prompt_template = article_seg0 @ ''{response_str}'' @ article_seg1 @ ''{query}'' @ article_seg2"
  by (simp add: article_prompt_template_def article_seg0_def article_seg1_def article_seg2_def)

lemma summary_template_split:
  "summary_prompt_template = summary_seg0 @ ''{text}'' @ summary_seg1 @ ''{query}'' @ summary_seg2 @ ''{query}'' @ summary_seg3"
  by (simp add: summary_prompt_template_def summary_seg0_def summary_seg1_def summary_seg2_def summary_seg3_def)

lemma post_template_split:
  "post_prompt_template = post_seg0 @ ''{summaries_str}'' @ post_seg1 @ ''{query}'' @ post_seg2 @ ''{query}'' @ post_seg3 @ ''{query}'' @ post_seg4"
  by (simp add: post_prompt_template_def post_seg0_def post_seg1_def post_seg2_def post_seg3_def post_seg4_def)

lemma article_seg0_plain: "CHR ''{'' \<notin> set article_seg0" "CHR ''}'' \<notin> set article_seg0"
  by (simp_all add: article_seg0_def)

lemma article_seg1_plain: "CHR ''{'' \<notin> set article_seg1" "CHR ''}'' \<notin> set article_seg1"
  by (simp_all add: article_seg1_def)

lemma article_seg2_plain: "CHR ''{'' \<notin> set article_seg2" "CHR ''}'' \<notin> set article_seg2"
  by (simp_all add: article_seg2_def)

lemma summary_seg0_plain: "CHR ''{'' \<notin> set summary_seg0" "CHR ''}'' \<notin> set summary_seg0"
  by (simp_all add: summary_seg0_def)

lemma summary_seg1_plain: "CHR ''{'' \<notin> set summary_seg1" "CHR ''}'' \<notin> set summary_seg1"
  by (simp_all add: summary_seg1_def)

lemma summary_seg2_plain: "CHR ''{'' \<notin> set summary_seg2" "CHR ''}'' \<notin> set summary_seg2"
  by (simp_all add: summary_seg2_def)

lemma summary_seg3_plain: "CHR ''{'' \<notin> set summary_seg3" "CHR ''}'' \<notin> set summary_seg3"
  by (simp_all add: summary_seg3_def)

lemma post_seg0_plain: "CHR ''{'' \<notin> set post_seg0" "CHR ''}'' \<notin> set post_seg0"
  by (simp_all add: post_seg0_def)

lemma post_seg1_plain: "CHR ''{'' \<notin> set post_seg1" "CHR ''}'' \<notin> set post_seg1"
  by (simp_all add: post_seg1_def)

lemma post_seg2_plain: "CHR ''{'' \<notin> set post_seg2" "CHR ''}'' \<notin> set post_seg2"
  by (simp_all add: post_seg2_def)

lemma post_seg3_plain: "CHR ''{'' \<notin> set post_seg3" "CHR ''}'' \<notin> set post_seg3"
  by (simp_all add: post_seg3_def)

lemma post_seg4_plain: "CHR ''{'' \<notin> set post_seg4" "CHR ''}'' \<notin> set post_seg4"
  by (simp_all add: post_seg4_def)

lemma article_prompt_render:
  "format_template article_prompt_template [(''response_str'', rs), (''query'', q)] =
     Some (article_prompt rs q)"
proof -
  let ?kw = "[(''response_str'', rs), (''query'', q)]"
  have r2: "format_fields ?kw None article_seg2 = Some article_seg2"
    by (rule format_fields_end [OF article_seg2_plain])
  have r1: "format_fields ?kw None
      (article_seg1 @ CHR ''{'' # ''query'' @ CHR ''}'' # article_seg2)
    = Some (article_seg1 @ q @ article_seg2)"
    by (rule format_fields_seg [OF article_seg1_plain _ _ _ _ r2]) simp_all
  have r0: "format_fields ?kw None
      (article_seg0 @ CHR ''{'' # ''response_str'' @ CHR ''}'' # article_seg1 @ CHR ''{'' # ''query'' @ CHR ''}'' # article_seg2)
    = Some (article_seg0 @ rs @ article_seg1 @ q @ article_seg2)"
    by (rule format_fields_seg [OF article_seg0_plain _ _ _ _ r1]) simp_all
  show ?thesis
    unfolding format_template_def article_template_split article_prompt_def using r0 by simp
qed

lemma summary_prompt_render:
  "format_template summary_prompt_template [(''text'', t), (''query'', q)] =
     Some (summary_prompt t q)"
proof -
  let ?kw = "[(''text'', t), (''query'', q)]"
  have r3: "format_fields ?kw None summary_seg3 = Some summary_seg3"
    by (rule format_fields_end [OF summary_seg3_plain])
  have r2: "format_fields ?kw None
      (summary_seg2 @ CHR ''{'' # ''query'' @ CHR ''}'' # summary_seg3)
    = Some (summary_seg2 @ q @ summary_seg3)"
    by (rule format_fields_seg [OF summary_seg2_plain _ _ _ _ r3]) simp_all
  have r1: "format_fields ?kw None
      (summary_seg1 @ CHR ''{'' # ''query'' @ CHR ''}'' # summary_seg2 @ CHR ''{'' # ''query'' @ CHR ''}'' # summary_seg3)
    = Some (summary_seg1 @ q @ summary_seg2 @ q @ summary_seg3)"
    by (rule format_fields_seg [OF summary_seg1_plain _ _ _ _ r2]) simp_all
  have r0: "format_fields ?kw None
      (summary_seg0 @ CHR ''{'' # ''text'' @ CHR ''}'' # summary_seg1 @ CHR ''{'' # ''query'' @ CHR ''}'' # summary_seg2 @ CHR ''{'' # ''query'' @ CHR ''}'' # summary_seg3)
    = Some (summary_seg0 @ t @ summary_seg1 @ q @ summary_seg2 @ q @ summary_seg3)"
    by (rule format_fields_seg [OF summary_seg0_plain _ _ _ _ r1]) simp_all
  show ?thesis
    unfolding format_template_def summary_template_split summary_prompt_def using r0 by simp
qed

lemma post_prompt_render:
  "format_template post_prompt_template [(''summaries_str'', ss), (''query'', q)] =
     Some (post_prompt ss q)"
proof -
  let ?kw = "[(''summaries_str'', ss), (''query'', q)]"
  have r4: "format_fields ?kw None post_seg4 = Some post_seg4"
    by (rule format_fields_end [OF post_seg4_plain])
  have r3: "format_fields ?kw None
      (post_seg3 @ CHR ''{'' # ''query'' @ CHR ''}'' # post_seg4)
    = Some (post_seg3 @ q @ post_seg4)"
    by (rule format_fields_seg [OF post_seg3_plain _ _ _ _ r4]) simp_all
  have r2: "format_fields ?kw None
      (post_seg2 @ CHR ''{'' # ''query'' @ CHR ''}'' # post_seg3 @ CHR ''{'' # ''query'' @ CHR ''}'' # post_seg4)
    = Some (post_seg2 @ q @ post_seg3 @ q @ post_seg4)"
    by (rule format_fields_seg [OF post_seg2_plain _ _ _ _ r3]) simp_all
  have r1: "format_fields ?kw None
      (post_seg1 @ CHR ''{'' # ''query'' @ CHR ''}'' # post_seg2 @ CHR ''{'' # ''query'' @ CHR ''}'' # post_seg3 @ CHR ''{'' # ''query'' @ CHR ''}'' # post_seg4)
    = Some (post_seg1 @ q @ post_seg2 @ q @ post_seg3 @ q @ post_seg4)"
    by (rule format_fields_seg [OF post_seg1_plain _ _ _ _ r2]) simp_all
  have r0: "format_fields ?kw None
      (post_seg0 @ CHR ''{'' # ''summaries_str'' @ CHR ''}'' # post_seg1 @ CHR ''{'' # ''query'' @ CHR ''}'' # post_seg2 @ CHR ''{'' # ''query'' @ CHR ''}'' # post_seg3 @ CHR ''{'' # ''query'' @ CHR ''}'' # post_seg4)
    = Some (post_seg0 @ ss @ post_seg1 @ q @ post_seg2 @ q @ post_seg3 @ q @ post_seg4)"
    by (rule format_fields_seg [OF post_seg0_plain _ _ _ _ r1]) simp_all
  show ?thesis
    unfolding format_template_def post_template_split post_prompt_def using r0 by simp
qed

section \<open>The stages, call by call\<close>

lemma search_for_articles_unfold:
  "search_for_articles w query tr =
     (case requests_request w tr ''POST'' ''https://google.serper.dev/search''
             [(''X-API-KEY'', getenv w ''SERPAPI_API_KEY''),
              (''Content-Type'', Some ''application/json'')]
             (json_dumps w (JObject [(''q'', JString query)])) of
        None \<Rightarrow> (Inl NetworkError, tr @ [search_call w query])
      | Some response \<Rightarrow>
          (case json_loads w (body response) of
             None \<Rightarrow> (Inl ParseError, tr @ [search_call w query])
           | Some response_data \<Rightarrow> (Inr response_data, tr @ [search_call w query])))"
  by (simp add: search_for_articles_def search_call_def search_url_def SERPAPI_API_KEY_def Let_def
      split: option.split)

lemma find_the_best_article_urls_unfold:
  "find_the_best_article_urls w response_data query tr =
     (case chain_predict w tr article_llm (article_prompt (json_dumps w response_data) query) of
        None \<Rightarrow> (Inl ModelInvocationError,
                 tr @ [LlmPredict article_llm (article_prompt (json_dumps w response_data) query)])
      | Some generated_urls \<Rightarrow>
          (case json_loads w generated_urls of
             None \<Rightarrow> (Inl ParseError,
                      tr @ [LlmPredict article_llm (article_prompt (json_dumps w response_data) query)])
           | Some url_list \<Rightarrow> (Inr url_list,
                      tr @ [LlmPredict article_llm (article_prompt (json_dumps w response_data) query)])))"
  by (simp add: find_the_best_article_urls_def article_prompt_render Let_def split: option.split)

lemma generate_reddit_post_unfold:
  "generate_reddit_post w summaries query tr =
     (case chain_predict w tr writer_llm (post_prompt (py_str_list summaries) query) of
        None \<Rightarrow> (Inl ModelInvocationError,
                 tr @ [LlmPredict writer_llm (post_prompt (py_str_list summaries) query)])
      | Some reddit_post \<Rightarrow> (Inr reddit_post,
                 tr @ [LlmPredict writer_llm (post_prompt (py_str_list summaries) query)]))"
  by (simp add: generate_reddit_post_def post_prompt_render Let_def split: option.split)

lemma summarise_loop_step:
  "summarise_loop w query (chunk # rest) summaries tr =
     (case chain_predict w tr writer_llm (summary_prompt (py_str_enumerated w chunk) query) of
        None \<Rightarrow> (Inl ModelInvocationError,
                 tr @ [LlmPredict writer_llm (summary_prompt (py_str_enumerated w chunk) query)])
      | Some summary \<Rightarrow>
          summarise_loop w query rest (summaries @ [summary])
            (tr @ [LlmPredict writer_llm (summary_prompt (py_str_enumerated w chunk) query)]))"
  by (simp add: summary_prompt_render Let_def split: option.split)

section \<open>Search Client\<close>

text \<open>
  Claim C9, as amended. For every query string, \<^verbatim>\<open>search_for_articles\<close> issues exactly one
  call, an HTTP POST to the fixed search endpoint whose body is the JSON text of
  \<^verbatim>\<open>{"q": query}\<close> and whose headers carry the entry \<^verbatim>\<open>X-API-KEY\<close>, and what it returns is the
  parsed response body as it is, whatever JSON value that is (a mapping when the body is
  a JSON object, but the code does not check); it fails only when the request raises or
  the body does not parse.
\<close>

theorem search_for_articles_one_post:
  "snd (search_for_articles w query tr) =
     tr @ [HttpRequest ''POST'' ''https://google.serper.dev/search''
             [(''X-API-KEY'', getenv w ''SERPAPI_API_KEY''),
              (''Content-Type'', Some ''application/json'')]
             (json_dumps w (JObject [(''q'', JString query)]))]
   \<and> fst (search_for_articles w query tr) =
     (case requests_request w tr ''POST'' ''https://google.serper.dev/search''
             [(''X-API-KEY'', getenv w ''SERPAPI_API_KEY''),
              (''Content-Type'', Some ''application/json'')]
             (json_dumps w (JObject [(''q'', JString query)])) of
        None \<Rightarrow> Inl NetworkError
      | Some response \<Rightarrow>
          (case json_loads w (body response) of
             None \<Rightarrow> Inl ParseError
           | Some response_data \<Rightarrow> Inr response_data))"
  unfolding search_for_articles_unfold search_call_def
  by (simp split: option.split)

text \<open>
  Claim C9, as stated, fails: when the response body is the JSON array \<^verbatim>\<open>[]\<close>, the value
  returned for the query \<^verbatim>\<open>x\<close> is the empty list, which is not a mapping.
\<close>

theorem search_for_articles_list_counterexample:
  "search_for_articles list_body_world ''x'' [] =
     (Inr (JArray []), [search_call list_body_world ''x''])"
  by (simp add: search_for_articles_unfold list_body_world_def mock_world_def mock_json_loads_def)

section \<open>Post Generator\<close>





section \<open>Summarizer\<close>

lemma summarise_loop_success:
  "summarise_loop w query cs acc tr = (Inr ss, tr') \<Longrightarrow>
     tr' = tr @ summary_calls w query cs
   \<and> length ss = length acc + length cs
   \<and> take (length acc) ss = acc
   \<and> (\<forall>i<length cs.
         chain_predict w (tr @ take i (summary_calls w query cs)) writer_llm
           (summary_prompt (py_str_enumerated w (cs ! i)) query)
         = Some (ss ! (length acc + i)))"
proof (induction cs arbitrary: acc tr)
  case Nil
  then show ?case by (simp add: summary_calls_def)
next
  case (Cons chunk rest)
  let ?p = "summary_prompt (py_str_enumerated w chunk) query"
  let ?c = "LlmPredict writer_llm ?p"
  from Cons.prems obtain s where s: "chain_predict w tr writer_llm ?p = Some s"
    and run: "summarise_loop w query rest (acc @ [s]) (tr @ [?c]) = (Inr ss, tr')"
    unfolding summarise_loop_step by (auto split: option.splits)
  from Cons.IH [OF run]
  have tr': "tr' = (tr @ [?c]) @ summary_calls w query rest"
    and len: "length ss = length (acc @ [s]) + length rest"
    and tk: "take (length (acc @ [s])) ss = acc @ [s]"
    and outs: "\<forall>i<length rest.
         chain_predict w ((tr @ [?c]) @ take i (summary_calls w query rest)) writer_llm
           (summary_prompt (py_str_enumerated w (rest ! i)) query)
         = Some (ss ! (length (acc @ [s]) + i))"
    by blast+
  have calls: "summary_calls w query (chunk # rest) = ?c # summary_calls w query rest"
    by (simp add: summary_calls_def)
  have a: "take (length acc) ss = acc"
  proof -
    have "take (length acc) (take (length (acc @ [s])) ss) = take (length acc) (acc @ [s])"
      using tk by simp
    then show ?thesis by (simp add: min_def)
  qed
  have b: "ss ! length acc = s"
  proof -
    have "length acc < length ss" using len by simp
    moreover have "take (Suc (length acc)) ss ! length acc = (acc @ [s]) ! length acc"
      using tk by simp
    ultimately show ?thesis by simp
  qed
  have c: "chain_predict w (tr @ take i (summary_calls w query (chunk # rest))) writer_llm
           (summary_prompt (py_str_enumerated w ((chunk # rest) ! i)) query)
         = Some (ss ! (length acc + i))" if "i < length (chunk # rest)" for i
  proof (cases i)
    case 0
    then show ?thesis using s b by simp
  next
    case (Suc j)
    then have "j < length rest" using that by simp
    with outs show ?thesis by (simp add: Suc calls)
  qed
  show ?case using tr' len a c by (simp add: calls)
qed

lemma summarise_loop_complete:
  "length outs = length cs \<Longrightarrow>
   (\<forall>i<length cs.
      chain_predict w (tr @ take i (summary_calls w query cs)) writer_llm
        (summary_prompt (py_str_enumerated w (cs ! i)) query)
      = Some (outs ! i)) \<Longrightarrow>
   summarise_loop w query cs acc tr = (Inr (acc @ outs), tr @ summary_calls w query cs)"
proof (induction cs arbitrary: acc tr outs)
  case Nil
  then show ?case by (simp add: summary_calls_def)
next
  case (Cons chunk rest)
  let ?p = "summary_prompt (py_str_enumerated w chunk) query"
  let ?c = "LlmPredict writer_llm ?p"
  from Cons.prems(1) obtain s outs' where outs: "outs = s # outs'"
    and len: "length outs' = length rest"
    by (cases outs) auto
  have calls: "summary_calls w query (chunk # rest) = ?c # summary_calls w query rest"
    by (simp add: summary_calls_def)
  have first: "chain_predict w tr writer_llm ?p = Some s"
    using Cons.prems(2) [rule_format, of 0] by (simp add: outs)
  have later: "\<forall>i<length rest.
      chain_predict w ((tr @ [?c]) @ take i (summary_calls w query rest)) writer_llm
        (summary_prompt (py_str_enumerated w (rest ! i)) query)
      = Some (outs' ! i)"
  proof (intro allI impI)
    fix i assume "i < length rest"
    then have "Suc i < length (chunk # rest)" by simp
    from Cons.prems(2) [rule_format, OF this] show
      "chain_predict w ((tr @ [?c]) @ take i (summary_calls w query rest)) writer_llm
        (summary_prompt (py_str_enumerated w (rest ! i)) query)
      = Some (outs' ! i)"
      by (simp add: calls outs)
  qed
  from Cons.IH [OF len later, of "acc @ [s]"]
  have "summarise_loop w query rest (acc @ [s]) (tr @ [?c]) =
      (Inr ((acc @ [s]) @ outs'), (tr @ [?c]) @ summary_calls w query rest)" .
  then show ?case
    unfolding summarise_loop_step using first by (simp add: calls outs)
qed

text \<open>
  Claim C4. \<^verbatim>\<open>summarise_content\<close> returns a list exactly when its chain is built and every
  model call of its loop answers, and the list it returns has one summary per chunk, in
  chunk order: it has the length of the chunk list, the stage issued exactly one model
  call per chunk, in order, and the summary at position \<open>i\<close> is the output of the call
  issued for chunk \<open>i\<close>. In particular, whenever the chain is built and each of these
  calls answers, such a list is returned.
\<close>

theorem summarise_content_order:
  "((summarise_content w data query tr = (Inr ss, tr')) =
      (chain_build w tr writer_llm
       \<and> length ss = length (split_documents w text_splitter data)
       \<and> tr' = tr @ summary_calls w query (enumerate 0 (split_documents w text_splitter data))
       \<and> (\<forall>i<length (split_documents w text_splitter data).
             chain_predict w
               (tr @ take i
                  (summary_calls w query (enumerate 0 (split_documents w text_splitter data))))
               writer_llm
               (summary_prompt
                  (py_str_enumerated w (i, split_documents w text_splitter data ! i)) query)
             = Some (ss ! i))))
   \<and> (chain_build w tr writer_llm
       \<and> (\<forall>i<length (split_documents w text_splitter data).
             chain_predict w
               (tr @ take i
                  (summary_calls w query (enumerate 0 (split_documents w text_splitter data))))
               writer_llm
               (summary_prompt
                  (py_str_enumerated w (i, split_documents w text_splitter data ! i)) query)
             \<noteq> None)
       \<longrightarrow> (\<exists>out. summarise_content w data query tr =
                   (Inr out,
                    tr @ summary_calls w query
                           (enumerate 0 (split_documents w text_splitter data)))
                 \<and> length out = length (split_documents w text_splitter data)))"
proof -
  let ?chunks = "split_documents w text_splitter data"
  let ?calls = "summary_calls w query (enumerate 0 ?chunks)"
  let ?answer = "\<lambda>i. chain_predict w (tr @ take i ?calls) writer_llm
      (summary_prompt (py_str_enumerated w (i, ?chunks ! i)) query)"
  have fwd: "chain_build w tr writer_llm \<and> length xs = length ?chunks \<and> t = tr @ ?calls
      \<and> (\<forall>i<length ?chunks. ?answer i = Some (xs ! i))"
    if run: "summarise_content w data query tr = (Inr xs, t)" for xs t
  proof -
    have b: "chain_build w tr writer_llm"
      using run by (auto simp: summarise_content_def Let_def split: if_splits)
    with run have "summarise_loop w query (enumerate 0 ?chunks) [] tr = (Inr xs, t)"
      by (simp add: summarise_content_def Let_def)
    from summarise_loop_success [OF this] b show ?thesis
      by (simp add: nth_enumerate_eq)
  qed
  have bwd: "summarise_content w data query tr = (Inr xs, tr @ ?calls)"
    if b: "chain_build w tr writer_llm" and len: "length xs = length ?chunks"
      and ans: "\<forall>i<length ?chunks. ?answer i = Some (xs ! i)" for xs
  proof -
    have l: "length xs = length (enumerate 0 ?chunks)" using len by simp
    have a: "\<forall>i<length (enumerate 0 ?chunks).
        chain_predict w (tr @ take i ?calls) writer_llm
          (summary_prompt (py_str_enumerated w (enumerate 0 ?chunks ! i)) query)
        = Some (xs ! i)"
      using ans by (simp add: nth_enumerate_eq)
    from summarise_loop_complete [OF l a, of "[]"] b show ?thesis
      by (simp add: summarise_content_def Let_def)
  qed
  have iff: "(summarise_content w data query tr = (Inr ss, tr')) =
      (chain_build w tr writer_llm \<and> length ss = length ?chunks \<and> tr' = tr @ ?calls
       \<and> (\<forall>i<length ?chunks. ?answer i = Some (ss ! i)))"
    using fwd [of ss tr'] bwd [of ss] by blast
  have ex: "\<exists>out. summarise_content w data query tr = (Inr out, tr @ ?calls)
      \<and> length out = length ?chunks"
    if b: "chain_build w tr writer_llm" and ans: "\<forall>i<length ?chunks. ?answer i \<noteq> None"
  proof -
    let ?out = "map (\<lambda>i. the (?answer i)) [0..<length ?chunks]"
    have "\<forall>i<length ?chunks. ?answer i = Some (?out ! i)"
      using ans by auto
    from bwd [OF b _ this] show ?thesis by auto
  qed
  show ?thesis using iff ex by blast
qed

lemma py_repr_nat_small:
  "py_repr_nat 0 = ''0''" "py_repr_nat (Suc 0) = ''1''" "py_repr_nat 2 = ''2''"
  "py_repr_nat 3 = ''3''" "py_repr_nat 4 = ''4''" "py_repr_nat 5 = ''5''"
  by code_simp+

lemma mock_split: "split_documents mock_world cfg ds = ds"
  by (simp add: mock_world_def)

lemma mock_writer: "chain_predict mock_world t writer_llm p = Some (''text '' @ py_repr_nat (length t))"
  by (simp add: mock_world_def writer_llm_def article_llm_def)

lemma mock_build: "chain_build mock_world t llm"
  by (simp add: mock_world_def)

text \<open>
  Claim C4 on the two documents of the test world: the chain is built and the two calls
  answer, so the two summaries are returned, in order.
\<close>

theorem summarise_content_order_witness:
  "chain_build mock_world [] writer_llm
   \<and> chain_predict mock_world
        (take 0 (summary_calls mock_world ''q'' (enumerate 0 mock_documents))) writer_llm
        (summary_prompt (py_str_enumerated mock_world (0, mock_documents ! 0)) ''q'')
      = Some ''text 0''
   \<and> chain_predict mock_world
        (take 1 (summary_calls mock_world ''q'' (enumerate 0 mock_documents))) writer_llm
        (summary_prompt (py_str_enumerated mock_world (1, mock_documents ! 1)) ''q'')
      = Some ''text 1''
   \<and> summarise_content mock_world mock_documents ''q'' [] =
       (Inr [''text 0'', ''text 1''], summary_calls mock_world ''q'' (enumerate 0 mock_documents))
   \<and> length [''text 0'', ''text 1''] = length mock_documents"
proof -
  have a0: "chain_predict mock_world
        (take 0 (summary_calls mock_world ''q'' (enumerate 0 mock_documents))) writer_llm
        (summary_prompt (py_str_enumerated mock_world (0, mock_documents ! 0)) ''q'')
      = Some ''text 0''"
    by (simp add: mock_writer py_repr_nat_small)
  have a1: "chain_predict mock_world
        (take 1 (summary_calls mock_world ''q'' (enumerate 0 mock_documents))) writer_llm
        (summary_prompt (py_str_enumerated mock_world (1, mock_documents ! 1)) ''q'')
      = Some ''text 1''"
    by (simp add: mock_writer py_repr_nat_small summary_calls_def mock_documents_def)
  have all: "\<forall>i<length (split_documents mock_world text_splitter mock_documents).
      chain_predict mock_world
        ([] @ take i (summary_calls mock_world ''q''
            (enumerate 0 (split_documents mock_world text_splitter mock_documents))))
        writer_llm
        (summary_prompt
           (py_str_enumerated mock_world
              (i, split_documents mock_world text_splitter mock_documents ! i)) ''q'')
      = Some ([''text 0'', ''text 1''] ! i)"
  proof (intro allI impI)
    fix i assume "i < length (split_documents mock_world text_splitter mock_documents)"
    then have "i = 0 \<or> i = 1" by (auto simp: mock_split mock_documents_def)
    then show "chain_predict mock_world
        ([] @ take i (summary_calls mock_world ''q''
            (enumerate 0 (split_documents mock_world text_splitter mock_documents))))
        writer_llm
        (summary_prompt
           (py_str_enumerated mock_world
              (i, split_documents mock_world text_splitter mock_documents ! i)) ''q'')
      = Some ([''text 0'', ''text 1''] ! i)"
      using a0 a1 by (auto simp: mock_split)
  qed
  have run: "summarise_content mock_world mock_documents ''q'' [] =
       (Inr [''text 0'', ''text 1''],
        [] @ summary_calls mock_world ''q''
               (enumerate 0 (split_documents mock_world text_splitter mock_documents)))"
    using summarise_content_order [of mock_world mock_documents "''q''" "[]"
        "[''text 0'', ''text 1'']"
        "[] @ summary_calls mock_world ''q''
               (enumerate 0 (split_documents mock_world text_splitter mock_documents))",
        THEN conjunct1, THEN iffD2]
      mock_build all
    by (simp add: mock_split mock_documents_def)
  show ?thesis using a0 a1 run mock_build by (simp add: mock_split mock_documents_def)
qed

lemma mock_enumerated_abc:
  "py_str_enumerated mock_world (0, \<lparr>page_content = ''abc'', metadata = []\<rparr>) =
     ''(0, Document(page_content='abc', metadata={}))''"
  by code_simp

text \<open>
  Claim C1 does not hold of the code. The loop variable of
  \<^verbatim>\<open>for chunk in enumerate(text)\<close> is the pair of index and document, and this pair is
  passed as \<^verbatim>\<open>text\<close>: for a single chunk with the text \<^verbatim>\<open>abc\<close> the one model call carries
  \<^verbatim>\<open>(0, Document(page_content='abc', metadata={}))\<close> in the text slot, and that prompt differs
  from the prompt with \<^verbatim>\<open>abc\<close> in the slot.
\<close>

theorem summarise_content_text_slot:
  "snd (summarise_content mock_world [\<lparr>page_content = ''abc'', metadata = []\<rparr>] ''q'' []) =
     [LlmPredict writer_llm
        (summary_prompt ''(0, Document(page_content='abc', metadata={}))'' ''q'')]
   \<and> summary_prompt ''(0, Document(page_content='abc', metadata={}))'' ''q''
       \<noteq> summary_prompt ''abc'' ''q''"
  by (simp add: summarise_content_def mock_split mock_build summary_prompt_render mock_writer
      mock_enumerated_abc Let_def summary_prompt_def)

section \<open>The run as a whole\<close>

lemma find_the_best_article_urls_trace:
  "snd (find_the_best_article_urls w sr query tr) =
     tr @ [LlmPredict article_llm (article_prompt (json_dumps w sr) query)]"
  unfolding find_the_best_article_urls_unfold by (simp split: option.split)

lemma search_for_articles_trace:
  "snd (search_for_articles w query tr) = tr @ [search_call w query]"
  unfolding search_for_articles_unfold by (simp split: option.split)

lemma get_content_from_urls_trace:
  "snd (get_content_from_urls w us tr) = tr @ [LoaderLoad us]"
  by (simp add: get_content_from_urls_def Let_def split: option.split)

lemma summarise_loop_extends:
  "\<exists>rest. snd (summarise_loop w query cs acc tr) = tr @ rest"
proof (induction cs arbitrary: acc tr)
  case Nil
  show ?case by simp
next
  case (Cons chunk rest)
  show ?case
  proof (cases "chain_predict w tr writer_llm (summary_prompt (py_str_enumerated w chunk) query)")
    case None
    then show ?thesis unfolding summarise_loop_step by simp
  next
    case (Some s)
    from Cons.IH [of "acc @ [s]"
        "tr @ [LlmPredict writer_llm (summary_prompt (py_str_enumerated w chunk) query)]"]
    show ?thesis unfolding summarise_loop_step using Some by auto
  qed
qed

lemma summarise_content_extends:
  "\<exists>rest. snd (summarise_content w ds query tr) = tr @ rest"
  by (simp add: summarise_content_def Let_def summarise_loop_extends)

lemma generate_reddit_post_trace:
  "snd (generate_reddit_post w ss query tr) =
     tr @ [LlmPredict writer_llm (post_prompt (py_str_list ss) query)]"
  unfolding generate_reddit_post_unfold by (simp split: option.split)

lemma main_extends_select:
  assumes "query \<noteq> []" and "search_for_articles w query tr = (Inr sr, t1)"
  shows "\<exists>rest. snd (main w query tr) =
           t1 @ LlmPredict article_llm (article_prompt (json_dumps w sr) query) # rest"
proof -
  let ?c = "LlmPredict article_llm (article_prompt (json_dumps w sr) query)"
  obtain r2 t2 where s2: "find_the_best_article_urls w sr query t1 = (r2, t2)"
    by (cases "find_the_best_article_urls w sr query t1") auto
  have t2: "t2 = t1 @ [?c]"
    using find_the_best_article_urls_trace [of w sr query t1] s2 by simp
  show ?thesis
  proof (cases r2)
    case (Inl e)
    then show ?thesis using assms s2 t2 by (simp add: main_def)
  next
    case (Inr us)
    obtain r3 t3 where s3: "get_content_from_urls w us t2 = (r3, t3)"
      by (cases "get_content_from_urls w us t2") auto
    have t3: "t3 = t2 @ [LoaderLoad us]"
      using get_content_from_urls_trace [of w us t2] s3 by simp
    show ?thesis
    proof (cases r3)
      case (Inl e)
      then show ?thesis using assms s2 t2 s3 t3 Inr by (simp add: main_def)
    next
      case ds: (Inr ds)
      obtain r4 t4 where s4: "summarise_content w ds query t3 = (r4, t4)"
        by (cases "summarise_content w ds query t3") auto
      obtain rest4 where t4: "t4 = t3 @ rest4"
        using summarise_content_extends [of w ds query t3] s4 by auto
      show ?thesis
      proof (cases r4)
        case (Inl e)
        then show ?thesis using assms s2 t2 s3 t3 Inr ds s4 t4 by (simp add: main_def)
      next
        case ss: (Inr ss)
        obtain r5 t5 where s5: "generate_reddit_post w ss query t4 = (r5, t5)"
          by (cases "generate_reddit_post w ss query t4") auto
        have t5: "t5 = t4 @ [LlmPredict writer_llm (post_prompt (py_str_list ss) query)]"
          using generate_reddit_post_trace [of w ss query t4] s5 by simp
        show ?thesis using assms s2 t2 s3 t3 Inr ds s4 t4 ss s5 t5
          by (cases r5) (simp_all add: main_def)
      qed
    qed
  qed
qed


lemma main_success:
  assumes "main w query tr = (Inr (Some r), t')"
  shows "\<exists>t1 t2 t3 t4.
      search_for_articles w query tr = (Inr (shown_search_results r), t1)
    \<and> find_the_best_article_urls w (shown_search_results r) query t1 = (Inr (shown_urls r), t2)
    \<and> get_content_from_urls w (shown_urls r) t2 = (Inr (shown_data r), t3)
    \<and> summarise_content w (shown_data r) query t3 = (Inr (shown_summaries r), t4)
    \<and> generate_reddit_post w (shown_summaries r) query t4 = (Inr (shown_post r), t')"
  using assms
  by (auto simp: main_def split: if_splits prod.splits sum.splits)

lemma main_result_cases:
  assumes "query \<noteq> []"
  shows "(\<exists>e. fst (main w query tr) = Inl e) \<or> (\<exists>r. fst (main w query tr) = Inr (Some r))"
  using assms
  by (auto simp: main_def split: prod.splits sum.splits)

text \<open>
  Claim C6, as amended. For every non-empty query a run either fails with an error or
  completes, and when it completes the post it shows is the output of the final model
  call, unchanged, whatever that text is; the code does not look at it, so it may be
  empty.
\<close>

theorem main_outcome:
  assumes "query \<noteq> []"
  shows "(\<exists>e. fst (main w query tr) = Inl e)
       \<or> (\<exists>r t. main w query tr =
              (Inr (Some r),
               t @ [LlmPredict writer_llm (post_prompt (py_str_list (shown_summaries r)) query)])
            \<and> chain_predict w t writer_llm
                 (post_prompt (py_str_list (shown_summaries r)) query) = Some (shown_post r))"
proof (cases "\<exists>e. fst (main w query tr) = Inl e")
  case True
  then show ?thesis by simp
next
  case False
  with main_result_cases [OF assms, of w tr]
  obtain r where "fst (main w query tr) = Inr (Some r)" by blast
  then obtain t' where run: "main w query tr = (Inr (Some r), t')"
    by (cases "main w query tr") simp
  from main_success [OF run] obtain t4 where
    g: "generate_reddit_post w (shown_summaries r) query t4 = (Inr (shown_post r), t')"
    by blast
  let ?p = "post_prompt (py_str_list (shown_summaries r)) query"
  from g have "chain_predict w t4 writer_llm ?p = Some (shown_post r)
      \<and> t' = t4 @ [LlmPredict writer_llm ?p]"
    unfolding generate_reddit_post_unfold by (auto split: option.splits)
  with run show ?thesis by blast
qed

section \<open>Runs in the test worlds\<close>

lemma py_repr_nat_Suc:
  "py_repr_nat (Suc (Suc 0)) = ''2''"
  "py_repr_nat (Suc (Suc (Suc 0))) = ''3''"
  "py_repr_nat (Suc (Suc (Suc (Suc 0)))) = ''4''"
  "py_repr_nat (Suc (Suc (Suc (Suc (Suc 0))))) = ''5''"
  by code_simp+

lemma llm_distinct: "writer_llm \<noteq> article_llm"
  by (simp add: writer_llm_def article_llm_def)

lemma mock_world_fields:
  "requests_request mock_world tr m u h p = Some \<lparr>status_code = 200, body = ''{}''\<rparr>"
  "json_loads mock_world = mock_json_loads"
  "json_dumps mock_world = mock_json_dumps"
  "chain_predict mock_world tr llm p =
     (if llm = article_llm then Some ''[]'' else Some (''text '' @ py_repr_nat (length tr)))"
  "loader_load mock_world tr us = Some mock_documents"
  "split_documents mock_world cfg ds = ds"
  "chain_build mock_world tr llm"
  by (simp_all add: mock_world_def)

lemma silent_model_world_fields:
  "requests_request silent_model_world tr m u h p = Some \<lparr>status_code = 200, body = ''{}''\<rparr>"
  "json_loads silent_model_world = mock_json_loads"
  "json_dumps silent_model_world = mock_json_dumps"
  "chain_predict silent_model_world tr llm p = (if llm = article_llm then Some ''[]'' else Some [])"
  "loader_load silent_model_world tr us = Some mock_documents"
  "split_documents silent_model_world cfg ds = ds"
  "chain_build silent_model_world tr llm"
  by (simp_all add: silent_model_world_def mock_world_def)

lemma no_keys_world_fields:
  "getenv no_keys_world k = None"
  "requests_request no_keys_world tr m u h p = Some \<lparr>status_code = 403, body = ''{}''\<rparr>"
  "json_loads no_keys_world = mock_json_loads"
  "json_dumps no_keys_world = mock_json_dumps"
  "chain_predict no_keys_world tr llm p = None"
  by (simp_all add: no_keys_world_def mock_world_def)

lemma prose_model_world_fields:
  "requests_request prose_model_world tr m u h p = Some \<lparr>status_code = 200, body = ''{}''\<rparr>"
  "json_loads prose_model_world = mock_json_loads"
  "json_dumps prose_model_world = mock_json_dumps"
  "chain_predict prose_model_world tr llm p = Some ''Here is the best article''"
  by (simp_all add: prose_model_world_def mock_world_def)

lemma unauthorized_world_fields:
  "requests_request unauthorized_world tr m u h p = Some \<lparr>status_code = 401, body = ''{}''\<rparr>"
  "json_loads unauthorized_world = mock_json_loads"
  "json_dumps unauthorized_world = mock_json_dumps"
  "chain_predict unauthorized_world tr llm p =
     (if llm = article_llm then Some ''[]'' else Some (''text '' @ py_repr_nat (length tr)))"
  "loader_load unauthorized_world tr us = Some mock_documents"
  "split_documents unauthorized_world cfg ds = ds"
  "chain_build unauthorized_world tr llm"
  by (simp_all add: unauthorized_world_def mock_world_def)

lemmas run_simps =
  main_def search_for_articles_unfold find_the_best_article_urls_unfold
  get_content_from_urls_def summarise_content_def summary_prompt_render
  generate_reddit_post_unfold Let_def mock_json_loads_def llm_distinct
  py_repr_nat_small py_repr_nat_Suc mock_documents_def summary_calls_def

lemma mock_main:
  "main mock_world ''x'' [] =
     (Inr (Some \<lparr>shown_search_results = JObject [], shown_urls = JArray [],
                  shown_data = mock_documents, shown_summaries = [''text 3'', ''text 4''],
                  shown_post = ''text 5''\<rparr>),
      [search_call mock_world ''x'',
       LlmPredict article_llm (article_prompt ''{}'' ''x''),
       LoaderLoad (JArray [])]
      @ summary_calls mock_world ''x'' (enumerate 0 mock_documents)
      @ [LlmPredict writer_llm (post_prompt (py_str_list [''text 3'', ''text 4'']) ''x'')])"
  by (simp add: run_simps mock_world_fields)

lemma silent_main:
  "main silent_model_world ''x'' [] =
     (Inr (Some \<lparr>shown_search_results = JObject [], shown_urls = JArray [],
                  shown_data = mock_documents, shown_summaries = [[], []],
                  shown_post = []\<rparr>),
      [search_call silent_model_world ''x'',
       LlmPredict article_llm (article_prompt ''{}'' ''x''),
       LoaderLoad (JArray [])]
      @ summary_calls silent_model_world ''x'' (enumerate 0 mock_documents)
      @ [LlmPredict writer_llm (post_prompt (py_str_list [[], []]) ''x'')])"
  by (simp add: run_simps silent_model_world_fields)

lemma no_keys_main:
  "main no_keys_world ''x'' [] =
     (Inl ModelInvocationError,
      [search_call no_keys_world ''x'', LlmPredict article_llm (article_prompt ''{}'' ''x'')])"
  by (simp add: run_simps no_keys_world_fields)

lemma prose_main:
  "main prose_model_world ''x'' [] =
     (Inl ParseError,
      [search_call prose_model_world ''x'', LlmPredict article_llm (article_prompt ''{}'' ''x'')])"
  by (simp add: run_simps prose_model_world_fields)

lemma unauthorized_search:
  "search_for_articles unauthorized_world ''x'' [] =
     (Inr (JObject []), [search_call unauthorized_world ''x''])"
  by (simp add: run_simps unauthorized_world_fields)

section \<open>End-to-end outcomes\<close>

text \<open>Claim C6, as amended, on the run of the test world for the query \<^verbatim>\<open>x\<close>.\<close>

theorem main_outcome_witness:
  "''x'' \<noteq> []
   \<and> main mock_world ''x'' [] =
       (Inr (Some \<lparr>shown_search_results = JObject [], shown_urls = JArray [],
                    shown_data = mock_documents, shown_summaries = [''text 3'', ''text 4''],
                    shown_post = ''text 5''\<rparr>),
        ([search_call mock_world ''x'',
          LlmPredict article_llm (article_prompt ''{}'' ''x''),
          LoaderLoad (JArray [])]
         @ summary_calls mock_world ''x'' (enumerate 0 mock_documents))
        @ [LlmPredict writer_llm (post_prompt (py_str_list [''text 3'', ''text 4'']) ''x'')])
   \<and> chain_predict mock_world
        ([search_call mock_world ''x'',
          LlmPredict article_llm (article_prompt ''{}'' ''x''),
          LoaderLoad (JArray [])]
         @ summary_calls mock_world ''x'' (enumerate 0 mock_documents))
        writer_llm (post_prompt (py_str_list [''text 3'', ''text 4'']) ''x'')
      = Some ''text 5''"
proof -
  have ne: "''x'' \<noteq> []" by simp
  from main_outcome [OF ne, of mock_world "[]"] show ?thesis
    unfolding mock_main by auto
qed

text \<open>
  Claim C6, as stated, fails: when the model answers the writing prompts with the empty
  text, the run for the query \<^verbatim>\<open>x\<close> completes and shows the empty post.
\<close>

theorem main_empty_post_counterexample:
  "fst (main silent_model_world ''x'' []) =
     Inr (Some \<lparr>shown_search_results = JObject [], shown_urls = JArray [],
                 shown_data = mock_documents, shown_summaries = [[], []],
                 shown_post = []\<rparr>)"
  by (simp add: silent_main)

section \<open>Configuration\<close>

text \<open>
  Claim C7, as amended. The program reads the keys with \<^verbatim>\<open>os.getenv\<close> and does not check
  them. For every non-empty query and every environment, the first thing a run does is
  send the search request, with the value read for \<^verbatim>\<open>SERPAPI_API_KEY\<close> (\<open>None\<close> when it is
  absent) in the \<^verbatim>\<open>X-API-KEY\<close> header entry; a missing key can only show as the failure
  of a later call.
\<close>

theorem main_search_first:
  assumes "query \<noteq> []"
  shows "\<exists>rest. snd (main w query tr) =
           tr @ HttpRequest ''POST'' ''https://google.serper.dev/search''
                  [(''X-API-KEY'', getenv w ''SERPAPI_API_KEY''),
                   (''Content-Type'', Some ''application/json'')]
                  (json_dumps w (JObject [(''q'', JString query)])) # rest"
proof -
  obtain r1 t1 where s1: "search_for_articles w query tr = (r1, t1)"
    by (cases "search_for_articles w query tr") auto
  have t1: "t1 = tr @ [search_call w query]"
    using search_for_articles_trace [of w query tr] s1 by simp
  show ?thesis
  proof (cases r1)
    case (Inl e)
    then have "snd (main w query tr) = tr @ [search_call w query]"
      using assms s1 t1 by (simp add: main_def)
    then show ?thesis by (simp add: search_call_def)
  next
    case (Inr sr)
    from main_extends_select [OF assms, of w tr sr t1] s1 Inr
    obtain rest where "snd (main w query tr) =
        t1 @ LlmPredict article_llm (article_prompt (json_dumps w sr) query) # rest"
      by auto
    then show ?thesis by (simp add: t1 search_call_def)
  qed
qed

text \<open>Claim C7, as amended, in an environment that holds neither key.\<close>

theorem main_search_first_witness:
  "''x'' \<noteq> []
   \<and> getenv no_keys_world ''SERPAPI_API_KEY'' = None
   \<and> getenv no_keys_world ''OPENAI_API_KEY'' = None
   \<and> (\<exists>rest. snd (main no_keys_world ''x'' []) =
          HttpRequest ''POST'' ''https://google.serper.dev/search''
            [(''X-API-KEY'', None), (''Content-Type'', Some ''application/json'')]
            (json_dumps no_keys_world (JObject [(''q'', JString ''x'')])) # rest)"
proof -
  have ne: "''x'' \<noteq> []" by simp
  from main_search_first [OF ne, of no_keys_world "[]"] show ?thesis
    by (simp add: no_keys_world_fields(1))
qed

text \<open>
  Claim C7, as stated, fails: with both keys absent the run for the query \<^verbatim>\<open>x\<close> sends the
  search request, goes on to the selection prompt and fails there, in the model call.
\<close>

theorem main_no_keys_counterexample:
  "getenv no_keys_world ''SERPAPI_API_KEY'' = None
   \<and> getenv no_keys_world ''OPENAI_API_KEY'' = None
   \<and> main no_keys_world ''x'' [] =
       (Inl ModelInvocationError,
        [HttpRequest ''POST'' ''https://google.serper.dev/search''
           [(''X-API-KEY'', None), (''Content-Type'', Some ''application/json'')]
           (json_dumps no_keys_world (JObject [(''q'', JString ''x'')])),
         LlmPredict article_llm (article_prompt ''{}'' ''x'')])"
  by (simp add: no_keys_main search_call_def no_keys_world_fields(1))

section \<open>Article Selector\<close>

text \<open>
  Claim C5, as amended. When the model call of \<^verbatim>\<open>find_the_best_article_urls\<close> returns, the
  stage has exactly two outcomes: it fails with a parse error when the output is not
  valid JSON, and otherwise it returns the parsed value as it is, whatever it is (an
  array that may be empty, or a value that is not an array of strings).
\<close>

theorem find_the_best_article_urls_outcome:
  assumes "chain_predict w tr article_llm (article_prompt (json_dumps w response_data) query)
           = Some generated_urls"
  shows "fst (find_the_best_article_urls w response_data query tr) =
           (case json_loads w generated_urls of
              None \<Rightarrow> Inl ParseError
            | Some url_list \<Rightarrow> Inr url_list)"
  unfolding find_the_best_article_urls_unfold using assms by (simp split: option.split)

text \<open>Claim C5, as amended, for a model that answers with prose.\<close>

theorem find_the_best_article_urls_outcome_witness:
  "chain_predict prose_model_world [] article_llm
      (article_prompt (json_dumps prose_model_world (JObject [])) ''x'')
     = Some ''Here is the best article''
   \<and> fst (find_the_best_article_urls prose_model_world (JObject []) ''x'' []) = Inl ParseError"
proof -
  have c: "chain_predict prose_model_world [] article_llm
      (article_prompt (json_dumps prose_model_world (JObject [])) ''x'')
     = Some ''Here is the best article''"
    by (simp add: prose_model_world_fields)
  from find_the_best_article_urls_outcome [OF c] c show ?thesis
    by (simp add: prose_model_world_fields mock_json_loads_def)
qed

text \<open>
  Claim C5, as stated, fails: the output \<^verbatim>\<open>[]\<close> is valid JSON and the stage returns the
  empty sequence.
\<close>

theorem find_the_best_article_urls_empty_counterexample:
  "json_loads mock_world ''[]'' = Some (JArray [])
   \<and> find_the_best_article_urls mock_world (JObject []) ''x'' [] =
       (Inr (JArray []), [LlmPredict article_llm (article_prompt ''{}'' ''x'')])"
  by (simp add: find_the_best_article_urls_unfold mock_world_fields mock_json_loads_def)

section \<open>Stage order\<close>

text \<open>
  Claim C8. For a non-empty query, a stage runs on the result of the stage before it, and
  the first failure ends the run with that error and with the trace as the failing stage
  left it. In particular, when the output of the selection prompt is not valid JSON the
  run fails with a parse error after exactly two calls, the search request and the
  selection prompt: nothing is fetched, summarised or generated.
\<close>

theorem main_stops_at_first_failure:
  assumes "query \<noteq> []"
  shows "(search_for_articles w query tr = (Inl e, t1) \<longrightarrow> main w query tr = (Inl e, t1))
    \<and> (search_for_articles w query tr = (Inr sr, t1)
       \<and> find_the_best_article_urls w sr query t1 = (Inl e, t2)
       \<longrightarrow> main w query tr = (Inl e, t2))
    \<and> (search_for_articles w query tr = (Inr sr, t1)
       \<and> find_the_best_article_urls w sr query t1 = (Inr us, t2)
       \<and> get_content_from_urls w us t2 = (Inl e, t3)
       \<longrightarrow> main w query tr = (Inl e, t3))
    \<and> (search_for_articles w query tr = (Inr sr, t1)
       \<and> find_the_best_article_urls w sr query t1 = (Inr us, t2)
       \<and> get_content_from_urls w us t2 = (Inr ds, t3)
       \<and> summarise_content w ds query t3 = (Inl e, t4)
       \<longrightarrow> main w query tr = (Inl e, t4))
    \<and> (search_for_articles w query tr = (Inr sr, t1)
       \<and> find_the_best_article_urls w sr query t1 = (Inr us, t2)
       \<and> get_content_from_urls w us t2 = (Inr ds, t3)
       \<and> summarise_content w ds query t3 = (Inr ss, t4)
       \<and> generate_reddit_post w ss query t4 = (Inl e, t5)
       \<longrightarrow> main w query tr = (Inl e, t5))
    \<and> (search_for_articles w query tr = (Inr sr, t1)
       \<and> chain_predict w t1 article_llm (article_prompt (json_dumps w sr) query) = Some out
       \<and> json_loads w out = None
       \<longrightarrow> main w query tr =
            (Inl ParseError,
             tr @ [search_call w query,
                   LlmPredict article_llm (article_prompt (json_dumps w sr) query)]))"
proof -
  have last: "main w query tr =
            (Inl ParseError,
             tr @ [search_call w query,
                   LlmPredict article_llm (article_prompt (json_dumps w sr) query)])"
    if s: "search_for_articles w query tr = (Inr sr, t1)"
      and c: "chain_predict w t1 article_llm (article_prompt (json_dumps w sr) query) = Some out"
      and j: "json_loads w out = None"
  proof -
    have t1: "t1 = tr @ [search_call w query]"
      using search_for_articles_trace [of w query tr] s by simp
    have "find_the_best_article_urls w sr query t1 =
        (Inl ParseError, t1 @ [LlmPredict article_llm (article_prompt (json_dumps w sr) query)])"
      unfolding find_the_best_article_urls_unfold using c j by simp
    then show ?thesis using assms s t1 by (simp add: main_def)
  qed
  show ?thesis using assms last by (simp add: main_def)
qed

text \<open>Claim C8 for a model that answers the selection prompt with prose.\<close>

theorem main_stops_at_first_failure_witness:
  "''x'' \<noteq> []
   \<and> search_for_articles prose_model_world ''x'' [] =
       (Inr (JObject []), [search_call prose_model_world ''x''])
   \<and> chain_predict prose_model_world [search_call prose_model_world ''x''] article_llm
        (article_prompt (json_dumps prose_model_world (JObject [])) ''x'')
      = Some ''Here is the best article''
   \<and> json_loads prose_model_world ''Here is the best article'' = None
   \<and> main prose_model_world ''x'' [] =
       (Inl ParseError,
        [search_call prose_model_world ''x'',
         LlmPredict article_llm
           (article_prompt (json_dumps prose_model_world (JObject [])) ''x'')])"
proof -
  have ne: "''x'' \<noteq> []" by simp
  have s: "search_for_articles prose_model_world ''x'' [] =
       (Inr (JObject []), [search_call prose_model_world ''x''])"
    by (simp add: run_simps prose_model_world_fields)
  have c: "chain_predict prose_model_world [search_call prose_model_world ''x''] article_llm
        (article_prompt (json_dumps prose_model_world (JObject [])) ''x'')
      = Some ''Here is the best article''"
    by (simp add: prose_model_world_fields)
  have j: "json_loads prose_model_world ''Here is the best article'' = None"
    by (simp add: prose_model_world_fields mock_json_loads_def)
  note th = main_stops_at_first_failure [OF ne, where w = prose_model_world and tr = "[]"
      and sr = "JObject []" and ?t1.0 = "[search_call prose_model_world ''x'']"
      and out = "''Here is the best article''"]
  from th [THEN conjunct2, THEN conjunct2, THEN conjunct2, THEN conjunct2, THEN conjunct2]
    s c j
  show ?thesis by simp
qed

section \<open>Status codes\<close>

text \<open>
  Claim C10. \<^verbatim>\<open>search_for_articles\<close> does not look at the status code: whenever the
  request returns a response, with any status, whose body is valid JSON, the parsed body
  is returned as the search results, no error is raised, and the run goes on to the
  selection prompt, which embeds that body.
\<close>

theorem search_for_articles_ignores_status:
  assumes "query \<noteq> []"
    and "requests_request w tr ''POST'' ''https://google.serper.dev/search''
           [(''X-API-KEY'', getenv w ''SERPAPI_API_KEY''),
            (''Content-Type'', Some ''application/json'')]
           (json_dumps w (JObject [(''q'', JString query)]))
         = Some \<lparr>status_code = status, body = text\<rparr>"
    and "json_loads w text = Some response_data"
  shows "search_for_articles w query tr = (Inr response_data, tr @ [search_call w query])
    \<and> (\<exists>rest. snd (main w query tr) =
          tr @ [search_call w query,
                LlmPredict article_llm (article_prompt (json_dumps w response_data) query)]
             @ rest)"
proof -
  have s: "search_for_articles w query tr = (Inr response_data, tr @ [search_call w query])"
    unfolding search_for_articles_unfold using assms(2,3) by simp
  from main_extends_select [OF assms(1) s] s show ?thesis by simp
qed

text \<open>Claim C10 for a search provider that answers 401 with the body \<^verbatim>\<open>{}\<close>.\<close>

theorem search_for_articles_ignores_status_witness:
  "''x'' \<noteq> []
   \<and> requests_request unauthorized_world [] ''POST'' ''https://google.serper.dev/search''
        [(''X-API-KEY'', getenv unauthorized_world ''SERPAPI_API_KEY''),
         (''Content-Type'', Some ''application/json'')]
        (json_dumps unauthorized_world (JObject [(''q'', JString ''x'')]))
      = Some \<lparr>status_code = 401, body = ''{}''\<rparr>
   \<and> json_loads unauthorized_world ''{}'' = Some (JObject [])
   \<and> search_for_articles unauthorized_world ''x'' [] =
       (Inr (JObject []), [search_call unauthorized_world ''x''])
   \<and> (\<exists>rest. snd (main unauthorized_world ''x'' []) =
          [search_call unauthorized_world ''x'',
           LlmPredict article_llm
             (article_prompt (json_dumps unauthorized_world (JObject [])) ''x'')]
          @ rest)"
proof -
  have ne: "''x'' \<noteq> []" by simp
  have r: "requests_request unauthorized_world [] ''POST'' ''https://google.serper.dev/search''
        [(''X-API-KEY'', getenv unauthorized_world ''SERPAPI_API_KEY''),
         (''Content-Type'', Some ''application/json'')]
        (json_dumps unauthorized_world (JObject [(''q'', JString ''x'')]))
      = Some \<lparr>status_code = 401, body = ''{}''\<rparr>"
    by (simp add: unauthorized_world_fields)
  have j: "json_loads unauthorized_world ''{}'' = Some (JObject [])"
    by (simp add: unauthorized_world_fields mock_json_loads_def)
  from search_for_articles_ignores_status [OF ne r j] r j show ?thesis by simp
qed

section \<open>The splitter of the specification\<close>

lemma ceiling_nat_div:
  fixes a d :: nat
  assumes "0 < d"
  shows "\<lceil>real a / real d\<rceil> = int ((a + d - 1) div d)"
proof (rule ceiling_unique)
  let ?q = "(a + d - 1) div d"
  have d: "real d > 0" using assms by simp
  have m: "(a + d - 1) mod d < d" using assms by simp
  have eq: "?q * d + (a + d - 1) mod d = a + d - 1" by simp
  have up: "a \<le> ?q * d"
  proof -
    have "a + d - 1 < ?q * d + d" using eq m by linarith
    then show ?thesis using assms by linarith
  qed
  have lo: "?q * d < a + d"
  proof -
    have "?q * d \<le> a + d - 1" using eq by linarith
    then show ?thesis using assms by linarith
  qed
  show "real a / real d \<le> of_int (int ?q)"
  proof -
    have "real a \<le> real (?q * d)" using up by (simp only: of_nat_le_iff)
    then show ?thesis using d by (simp add: field_simps)
  qed
  show "of_int (int ?q) - 1 < real a / real d"
  proof -
    have "real (?q * d) < real (a + d)" using lo by (simp only: of_nat_less_iff)
    then have "(real ?q - 1) * real d < real a" by (simp add: algebra_simps)
    then show ?thesis using d by (simp add: field_simps)
  qed
qed

lemma window_step:
  fixes L n v :: nat
  assumes "v < n" "n < L"
  shows "(L - v + (n - v) - 1) div (n - v) = Suc ((L - (n - v) - v + (n - v) - 1) div (n - v))"
proof -
  define d where "d = n - v"
  define A where "A = L - d - v + d - 1"
  have d: "0 < d" using assms by (simp add: d_def)
  have e: "L - v + d - 1 = A + d" unfolding A_def d_def using assms by linarith
  have f: "(A + d) div d = Suc (A div d)" using d by simp
  have "(L - v + d - 1) div d = Suc (A div d)" unfolding e by (rule f)
  then show ?thesis unfolding A_def d_def .
qed

lemma window_last:
  fixes L n v :: nat
  assumes "v < n" "n < L" "L - (n - v) \<le> n"
  shows "(L - (n - v) - v + (n - v) - 1) div (n - v) = 1"
proof -
  define d where "d = n - v"
  define A where "A = L - d - v + d - 1"
  have d: "0 < d" using assms by (simp add: d_def)
  have a: "d \<le> A" unfolding A_def d_def using assms by linarith
  have b: "A < 2 * d" unfolding A_def d_def using assms by linarith
  have "A div d = 1"
  proof (rule div_nat_eqI)
    show "d * 1 \<le> A" using a by simp
    show "A < d * Suc 1" using b by simp
  qed
  then show ?thesis unfolding A_def d_def .
qed

lemma split_windows_count:
  assumes "overlap < n"
  shows "length (split_windows n overlap text) =
     (if length text \<le> n then 1
      else (length text - overlap + (n - overlap) - 1) div (n - overlap))"
  using assms
proof (induction n overlap "text" rule: split_windows.induct)
  case (1 n overlap body_text)
  let ?d = "n - overlap"
  have d: "0 < ?d" using "1.prems" by simp
  show ?case
  proof (cases "length body_text \<le> n")
    case True
    then show ?thesis by (simp add: split_windows.simps)
  next
    case False
    let ?rest = "drop ?d body_text"
    have len: "length ?rest = length body_text - ?d" by simp
    have IH: "length (split_windows n overlap ?rest) =
       (if length ?rest \<le> n then 1 else (length ?rest - overlap + ?d - 1) div ?d)"
      using "1.IH" False "1.prems" by simp
    have unfold: "length (split_windows n overlap body_text) = Suc (length (split_windows n overlap ?rest))"
      using False "1.prems" by (subst split_windows.simps) simp
    have step: "(length body_text - overlap + ?d - 1) div ?d =
        Suc ((length ?rest - overlap + ?d - 1) div ?d)"
      using window_step [of overlap n "length body_text"] False "1.prems" by (simp add: len)
    show ?thesis
    proof (cases "length ?rest \<le> n")
      case True
      have "(length ?rest - overlap + ?d - 1) div ?d = 1"
        using window_last [of overlap n "length body_text"] False True "1.prems"
        by (simp add: len)
      then show ?thesis using False True unfold IH step by simp
    next
      case F2: False
      then show ?thesis using False unfold IH step by simp
    qed
  qed
qed

lemma occurs_in_single:
  "c \<notin> set s \<Longrightarrow> \<not> occurs_in [c] s"
  by (induction s) auto

text \<open>
  Claim C3, as amended, on the splitter as the specification describes it. For a text of
  length \<open>L\<close> without the separator, chunk size 3000 and overlap 200, the chunks are a
  function of the text; there is exactly one chunk when \<open>L \<le> 3000\<close>, and
  \<open>\<lceil>(L - 200) / (3000 - 200)\<rceil>\<close> chunks when \<open>L > 200\<close>.
\<close>

theorem spec_split_text_count:
  assumes "\<not> occurs_in (separator text_splitter) s"
  shows "\<exists>chunks. spec_split_text text_splitter s = Some chunks
     \<and> (length s \<le> 3000 \<longrightarrow> length chunks = 1)
     \<and> (200 < length s \<longrightarrow>
          int (length chunks) = \<lceil>(real (length s) - 200) / (3000 - 200)\<rceil>)"
proof -
  let ?chunks = "split_windows 3000 200 s"
  have sp: "spec_split_text text_splitter s = Some ?chunks"
    using assms by (simp add: spec_split_text_def text_splitter_def)
  have cnt: "length ?chunks =
      (if length s \<le> 3000 then 1 else (length s - 200 + (3000 - 200) - 1) div (3000 - 200))"
    by (rule split_windows_count) simp
  have short: "length ?chunks = 1" if "length s \<le> 3000"
    using cnt that by simp
  have long: "int (length ?chunks) = \<lceil>(real (length s) - 200) / (3000 - 200)\<rceil>"
    if big: "200 < length s"
  proof -
    have c: "\<lceil>real (length s - 200) / real (2800::nat)\<rceil>
           = int ((length s - 200 + 2800 - 1) div 2800)"
      by (rule ceiling_nat_div) simp
    have r: "real (length s - 200) = real (length s) - 200" using big by simp
    show ?thesis
    proof (cases "length s \<le> 3000")
      case True
      have "(length s - 200 + 2800 - 1) div 2800 = 1"
      proof (rule div_nat_eqI)
        show "2800 * 1 \<le> length s - 200 + 2800 - 1" using big by simp
        show "length s - 200 + 2800 - 1 < 2800 * Suc 1" using True by simp
      qed
      then show ?thesis using c r short [OF True] by simp
    next
      case False
      then show ?thesis using c r cnt by simp
    qed
  qed
  show ?thesis using sp short long by blast
qed

text \<open>Claim C3, as amended, for a text of 5000 characters: two chunks.\<close>

theorem spec_split_text_count_witness:
  "\<not> occurs_in (separator text_splitter) (replicate 5000 (CHR ''a''))
   \<and> (\<exists>chunks. spec_split_text text_splitter (replicate 5000 (CHR ''a'')) = Some chunks
        \<and> length chunks = 2)"
proof -
  have n: "\<not> occurs_in (separator text_splitter) (replicate 5000 (CHR ''a''))"
    by (simp add: text_splitter_def occurs_in_single)
  from spec_split_text_count [OF n] obtain chunks where
    sp: "spec_split_text text_splitter (replicate 5000 (CHR ''a'')) = Some chunks"
    and c: "int (length chunks) = \<lceil>(real (length (replicate 5000 (CHR ''a''))) - 200) / (3000 - 200)\<rceil>"
    by auto
  have "\<lceil>(real (length (replicate 5000 (CHR ''a''))) - 200) / (3000 - 200)\<rceil> = 2"
    by (simp add: ceiling_eq_iff)
  with c have "length chunks = 2" by simp
  with n sp show ?thesis by blast
qed

text \<open>
  Claim C3, as stated, fails: a text of one character gives one chunk, and the formula
  gives \<open>\<lceil>(1 - 200) / 2800\<rceil> = 0\<close>.
\<close>

theorem spec_split_text_short_counterexample:
  "\<not> occurs_in (separator text_splitter) ''a''
   \<and> spec_split_text text_splitter ''a'' = Some [''a'']
   \<and> int (length [''a'']) \<noteq> \<lceil>(real (length ''a'') - 200) / (3000 - 200)\<rceil>"
proof -
  have "\<lceil>(real (length ''a'') - 200) / (3000 - 200)\<rceil> = 0"
    by (simp add: ceiling_eq_iff)
  then show ?thesis
    by (simp add: spec_split_text_def text_splitter_def split_windows.simps)
qed


end
